theory Spec2Isabelle
  imports Main "HOL-Library.Multiset" "HOL-Library.Product_Lexorder"
begin

section \<open>The card game of card\_game.py\<close>

text \<open>
  A shallow embedding of the classes \<open>Card\<close>, \<open>Deck\<close>, \<open>Player\<close> and \<open>CardGame\<close>.
  Python integers are \<open>int\<close>, strings are \<open>string\<close>, lists are lists. A method that
  mutates its object takes the object and returns the new one. Every exception the
  interpreter can raise in the modelled code (a missing dictionary key, an index out of
  range, the \<open>ValueError\<close> of the constructor) is a value \<open>Inl e\<close> of a sum type; the
  state an exception leaves behind is not modelled, since nothing in the program
  catches an exception and goes on using the object.
\<close>

datatype error =
    KeyError string
  | ValueError string
  | IndexError
  | ZeroDivisionError

subsection \<open>Card\<close>

text \<open>The class attribute \<open>Card.suit_values\<close>, a dictionary from suit name to weight.\<close>

definition suit_values :: "string \<rightharpoonup> int" where
  "suit_values = map_of [(''Spades'', 1), (''Diamonds'', 2), (''Hearts'', 3), (''Clubs'', 4)]"

record card =
  rank :: int
  suit :: string
  suit_sort :: int

text \<open>
  \<open>Card.__init__\<close>: stores rank and suit and looks the suit up in \<open>suit_values\<close>;
  the subscript raises \<open>KeyError\<close> on a suit that is not a key of the dictionary.
\<close>

definition Card :: "int \<Rightarrow> string \<Rightarrow> error + card" where
  "Card r s =
     (case suit_values s of
        None \<Rightarrow> Inl (KeyError s)
      | Some w \<Rightarrow> Inr \<lparr>rank = r, suit = s, suit_sort = w\<rparr>)"

text \<open>The property \<open>card_value\<close>: \<open>self.rank * self.suit_values[self.suit]\<close>.\<close>

definition card_value :: "card \<Rightarrow> error + int" where
  "card_value c =
     (case suit_values (suit c) of
        None \<Rightarrow> Inl (KeyError (suit c))
      | Some w \<Rightarrow> Inr (rank c * w))"

text \<open>
  \<open>Card.__gt__\<close>: cards of one suit compare by rank, cards of different suits by the
  weights of their suits, each looked up in the dictionary.
\<close>

definition card_gt :: "card \<Rightarrow> card \<Rightarrow> error + bool" where
  "card_gt self other =
     (if suit self = suit other then Inr (rank other < rank self)
      else
        (case suit_values (suit self) of
           None \<Rightarrow> Inl (KeyError (suit self))
         | Some ws \<Rightarrow>
             (case suit_values (suit other) of
                None \<Rightarrow> Inl (KeyError (suit other))
              | Some wo \<Rightarrow> Inr (wo < ws))))"

text \<open>A card is well formed when it is what the constructor builds from its rank and suit.\<close>

definition card_ok :: "card \<Rightarrow> bool" where
  "card_ok c = (Card (rank c) (suit c) = Inr c)"

subsection \<open>Deck\<close>

type_synonym deck = "card list"

text \<open>The class attribute \<open>Deck.suits\<close>.\<close>

definition suits :: "string list" where
  "suits = [''Spades'', ''Diamonds'', ''Hearts'', ''Clubs'']"

text \<open>
  \<open>Deck.__init__\<close>: the inner loop over \<open>range(2, 15)\<close> and the outer loop over
  \<open>Deck.suits\<close>, each appending to \<open>the_deck\<close>.
\<close>

fun deck_rank_loop :: "string \<Rightarrow> int list \<Rightarrow> deck \<Rightarrow> error + deck" where
  "deck_rank_loop s [] the_deck = Inr the_deck"
| "deck_rank_loop s (r # rs) the_deck =
     (case Card r s of
        Inl e \<Rightarrow> Inl e
      | Inr new_card \<Rightarrow> deck_rank_loop s rs (the_deck @ [new_card]))"

fun deck_suit_loop :: "string list \<Rightarrow> deck \<Rightarrow> error + deck" where
  "deck_suit_loop [] the_deck = Inr the_deck"
| "deck_suit_loop (s # ss) the_deck =
     (case deck_rank_loop s [2..14] the_deck of
        Inl e \<Rightarrow> Inl e
      | Inr the_deck' \<Rightarrow> deck_suit_loop ss the_deck')"

definition Deck :: "error + deck" where
  "Deck = deck_suit_loop suits []"

text \<open>
  \<open>Deck.shuffle\<close> calls \<open>random.shuffle\<close>. The outcome of the random source is a
  parameter of the model: a function that rearranges a list, keeping its elements.
\<close>

type_synonym shuffler = "card list \<Rightarrow> card list"

definition is_shuffle :: "shuffler \<Rightarrow> bool" where
  "is_shuffle shf = (\<forall>xs. mset (shf xs) = mset xs)"

definition shuffle :: "shuffler \<Rightarrow> deck \<Rightarrow> deck" where
  "shuffle shf the_deck = shf the_deck"

text \<open>
  \<open>Deck.sort\<close>: two passes of \<open>list.sort\<close>, by rank and then by \<open>suit_sort\<close>.
  Python's \<open>list.sort\<close> is a stable ascending sort, and so is \<open>sort_key\<close>.
\<close>

definition sort_deck :: "deck \<Rightarrow> deck" where
  "sort_deck the_deck = sort_key suit_sort (sort_key rank the_deck)"

text \<open>\<open>Deck.deal\<close>: pops the front card, or returns \<open>None\<close> on an empty deck.\<close>

definition deal :: "deck \<Rightarrow> card option \<times> deck" where
  "deal the_deck =
     (case the_deck of
        [] \<Rightarrow> (None, the_deck)
      | c # rest \<Rightarrow> (Some c, rest))"

text \<open>\<open>n\<close> calls of \<open>deal\<close> in a row: the results in order, and the deck left.\<close>

fun deal_n :: "nat \<Rightarrow> deck \<Rightarrow> card option list \<times> deck" where
  "deal_n 0 the_deck = ([], the_deck)"
| "deal_n (Suc n) the_deck =
     (case deal the_deck of
        (r, the_deck') \<Rightarrow> (case deal_n n the_deck' of (rs, d) \<Rightarrow> (r # rs, d)))"

subsection \<open>Player\<close>

record player =
  name :: string
  cards :: "card list"
  player_score :: int

text \<open>Python's \<open>str\<close> on an integer: the decimal digits, with a minus sign below zero.\<close>

definition digit_char :: "nat \<Rightarrow> char" where
  "digit_char d = char_of (48 + d)"

fun str_nat :: "nat \<Rightarrow> string" where
  "str_nat n = (if n < 10 then [digit_char n] else str_nat (n div 10) @ [digit_char (n mod 10)])"

definition str_int :: "int \<Rightarrow> string" where
  "str_int i = (if i < 0 then CHR ''-'' # str_nat (nat (- i)) else str_nat (nat i))"

text \<open>\<open>Player.__init__\<close>.\<close>

definition Player :: "int \<Rightarrow> player" where
  "Player n = \<lparr>name = ''Player '' @ str_int n, cards = [], player_score = 0\<rparr>"

text \<open>
  \<open>Player.add_card\<close>: appends the card and adds its value to the score. The value is
  computed after the append; when it raises, the call raises.
\<close>

definition add_card :: "player \<Rightarrow> card \<Rightarrow> error + player" where
  "add_card self new_card =
     (let appended = self\<lparr>cards := cards self @ [new_card]\<rparr>
      in case card_value new_card of
           Inl e \<Rightarrow> Inl e
         | Inr v \<Rightarrow> Inr (appended\<lparr>player_score := player_score appended + v\<rparr>))"

text \<open>The property \<open>score\<close> and \<open>Player.__gt__\<close>.\<close>

definition score :: "player \<Rightarrow> int" where
  "score self = player_score self"

definition player_gt :: "player \<Rightarrow> player \<Rightarrow> bool" where
  "player_gt self other = (player_score other < player_score self)"

subsection \<open>CardGame\<close>

record game =
  players :: "player list"
  num_players :: int
  sort_deck_flag :: bool
  cards_per_player :: int

definition GAME_PLAYERS_REQUIRED :: int where
  "GAME_PLAYERS_REQUIRED = 2"

text \<open>
  \<open>CardGame.__init__\<close>: raises \<open>ValueError\<close> unless the number of players is the
  required one, and otherwise appends \<open>Player(i)\<close> for \<open>i\<close> in
  \<open>range(1, num_players + 1)\<close>.
\<close>

definition CardGame :: "int \<Rightarrow> bool \<Rightarrow> int \<Rightarrow> error + game" where
  "CardGame n sd cpp =
     (if n \<noteq> GAME_PLAYERS_REQUIRED then Inl (ValueError ''Incorrect player count specified.'')
      else Inr \<lparr>players = map Player [1..n], num_players = n,
                sort_deck_flag = sd, cards_per_player = cpp\<rparr>)"

text \<open>
  The position a list subscript reads: an index from 0 up to the length, or a negative
  one down to minus the length, which counts from the end; anything else raises.
\<close>

definition py_index :: "'a list \<Rightarrow> int \<Rightarrow> error + nat" where
  "py_index xs i =
     (if 0 \<le> i \<and> i < int (length xs) then Inr (nat i)
      else if i < 0 \<and> - int (length xs) \<le> i then Inr (nat (int (length xs) + i))
      else Inl IndexError)"

text \<open>Python's \<open>%\<close> on integers: floored, as \<open>mod\<close> on \<open>int\<close> is, and raising on a zero divisor.\<close>

definition py_mod :: "int \<Rightarrow> int \<Rightarrow> error + int" where
  "py_mod a b = (if b = 0 then Inl ZeroDivisionError else Inr (a mod b))"

text \<open>
  The dealing loop of \<open>play_card_game\<close>: while cards remain to be dealt, take the next
  card (stopping when the deck is empty), give it to the current player and move on to
  the next player.
\<close>

function deal_loop :: "game \<Rightarrow> deck \<Rightarrow> int \<Rightarrow> int \<Rightarrow> error + game" where
  "deal_loop g d current_player cards_to_deal =
     (if 0 < cards_to_deal then
        (case deal d of
           (None, d') \<Rightarrow> Inr g
         | (Some next_card, d') \<Rightarrow>
             (case py_index (players g) current_player of
                Inl e \<Rightarrow> Inl e
              | Inr k \<Rightarrow>
                  (case add_card (players g ! k) next_card of
                     Inl e \<Rightarrow> Inl e
                   | Inr p \<Rightarrow>
                       (case py_mod (current_player + 1) (num_players g) of
                          Inl e \<Rightarrow> Inl e
                        | Inr nxt \<Rightarrow>
                            deal_loop (g\<lparr>players := (players g)[k := p]\<rparr>) d' nxt
                              (cards_to_deal - 1)))))
      else Inr g)"
  by pat_completeness auto
termination
  by (relation "measure (\<lambda>(g, d, cur, n). nat n)") auto

declare deal_loop.simps [simp del]

text \<open>\<open>CardGame.play_card_game\<close>: build the deck, shuffle it, sort it when asked, deal.\<close>

definition play_card_game :: "shuffler \<Rightarrow> game \<Rightarrow> error + game" where
  "play_card_game shf g =
     (case Deck of
        Inl e \<Rightarrow> Inl e
      | Inr d0 \<Rightarrow>
          (let d1 = shuffle shf d0;
               d2 = (if sort_deck_flag g then sort_deck d1 else d1)
           in deal_loop g d2 0 (num_players g * cards_per_player g)))"

text \<open>
  \<open>CardGame.show_winner\<close>: pops the first player off \<open>self.players\<close> as the winner,
  then pops every other player and keeps it when it is greater than the winner. The
  loop returns the winner together with what is left of the list.
\<close>

fun winner_loop :: "player \<Rightarrow> player list \<Rightarrow> player \<times> player list" where
  "winner_loop winner [] = (winner, [])"
| "winner_loop winner (compare # rest) =
     winner_loop (if player_gt compare winner then compare else winner) rest"

definition show_winner :: "game \<Rightarrow> error + (string \<times> game)" where
  "show_winner g =
     (case players g of
        [] \<Rightarrow> Inl IndexError
      | first # rest \<Rightarrow>
          (case winner_loop first rest of
             (winner, left) \<Rightarrow> Inr (name winner, g\<lparr>players := left\<rparr>)))"

subsection \<open>Notions used to state the properties\<close>

text \<open>
  The order the sorted deck is meant to have: \<open>a\<close> may stand before \<open>b\<close> when its
  suit weight is smaller, or the weights are equal and its rank is not greater.
\<close>

definition suit_then_rank :: "card \<Rightarrow> card \<Rightarrow> bool" where
  "suit_then_rank a b =
     (suit_sort a < suit_sort b \<or> (suit_sort a = suit_sort b \<and> rank a \<le> rank b))"

text \<open>The same order as a key: pairs are compared lexicographically.\<close>

definition lexkey :: "card \<Rightarrow> int \<times> int" where
  "lexkey c = (suit_sort c, rank c)"

text \<open>The fifty-two cards, suit by suit in the order of \<open>Deck.suits\<close>, ranks 2 to 14 in each.\<close>

definition standard_deck :: deck where
  "standard_deck =
     concat (map (\<lambda>(s, w). map (\<lambda>r. \<lparr>rank = r, suit = s, suit_sort = w\<rparr>) [2..14])
       [(''Spades'', 1), (''Diamonds'', 2), (''Hearts'', 3), (''Clubs'', 4)])"

text \<open>The sum of \<open>card_value\<close> over a hand, and the invariant that the score is that sum.\<close>

fun sum_card_values :: "card list \<Rightarrow> error + int" where
  "sum_card_values [] = Inr 0"
| "sum_card_values (c # cs) =
     (case card_value c of
        Inl e \<Rightarrow> Inl e
      | Inr v \<Rightarrow> (case sum_card_values cs of Inl e \<Rightarrow> Inl e | Inr t \<Rightarrow> Inr (v + t)))"

definition score_inv :: "player \<Rightarrow> bool" where
  "score_inv p = (sum_card_values (cards p) = Inr (score p))"

text \<open>Shorthand for the states that appear in the statements below.\<close>

abbreviation spade :: "int \<Rightarrow> card" where
  "spade r \<equiv> \<lparr>rank = r, suit = ''Spades'', suit_sort = 1\<rparr>"

abbreviation diamond :: "int \<Rightarrow> card" where
  "diamond r \<equiv> \<lparr>rank = r, suit = ''Diamonds'', suit_sort = 2\<rparr>"

abbreviation new_game :: "bool \<Rightarrow> int \<Rightarrow> game" where
  "new_game sd cpp \<equiv>
     \<lparr>players = [\<lparr>name = ''Player 1'', cards = [], player_score = 0\<rparr>,
                 \<lparr>name = ''Player 2'', cards = [], player_score = 0\<rparr>],
      num_players = 2, sort_deck_flag = sd, cards_per_player = cpp\<rparr>"

abbreviation dealt_game :: "bool \<Rightarrow> int \<Rightarrow> card list \<Rightarrow> int \<Rightarrow> card list \<Rightarrow> int \<Rightarrow> game" where
  "dealt_game sd cpp hand1 score1 hand2 score2 \<equiv>
     \<lparr>players = [\<lparr>name = ''Player 1'', cards = hand1, player_score = score1\<rparr>,
                 \<lparr>name = ''Player 2'', cards = hand2, player_score = score2\<rparr>],
      num_players = 2, sort_deck_flag = sd, cards_per_player = cpp\<rparr>"

section \<open>Properties of Card\<close>

lemma suit_values_known:
  "suit_values ''Spades'' = Some 1" "suit_values ''Diamonds'' = Some 2"
  "suit_values ''Hearts'' = Some 3" "suit_values ''Clubs'' = Some 4"
  by (simp_all add: suit_values_def)

lemma suit_values_unknown: "s \<notin> set suits \<Longrightarrow> suit_values s = None"
  by (simp add: suit_values_def suits_def)

lemma suit_values_dom: "s \<in> set suits \<Longrightarrow> \<exists>w. suit_values s = Some w"
  by (auto simp: suits_def suit_values_known)

lemma card_ok_weight:
  assumes "card_ok c"
  shows "suit_values (suit c) = Some (suit_sort c)"
proof (cases "suit_values (suit c)")
  case None
  with assms show ?thesis by (simp add: card_ok_def Card_def)
next
  case (Some w)
  with assms have "\<lparr>rank = rank c, suit = suit c, suit_sort = w\<rparr> = c"
    by (simp add: card_ok_def Card_def)
  then have "suit_sort \<lparr>rank = rank c, suit = suit c, suit_sort = w\<rparr> = suit_sort c"
    by (rule arg_cong)
  with Some show ?thesis by simp
qed

lemma card_ok_value: "card_ok c \<Longrightarrow> card_value c = Inr (rank c * suit_sort c)"
  by (simp add: card_value_def card_ok_weight)

text \<open>
  C2, as the code has it: the ace of clubs is greater than the ace of spades, since
  clubs weigh 4 and spades 1; the comparison the other way round is false.
\<close>

theorem ace_of_clubs_gt_ace_of_spades:
  "Card 14 ''Clubs'' = Inr \<lparr>rank = 14, suit = ''Clubs'', suit_sort = 4\<rparr> \<and>
   Card 14 ''Spades'' = Inr \<lparr>rank = 14, suit = ''Spades'', suit_sort = 1\<rparr> \<and>
   card_gt \<lparr>rank = 14, suit = ''Clubs'', suit_sort = 4\<rparr>
           \<lparr>rank = 14, suit = ''Spades'', suit_sort = 1\<rparr> = Inr True"
  by (simp add: Card_def card_gt_def suit_values_known)

text \<open>C2 as stated fails: the ace of spades is not greater than the ace of clubs.\<close>

theorem ace_of_spades_not_gt_ace_of_clubs:
  "Card 14 ''Spades'' = Inr \<lparr>rank = 14, suit = ''Spades'', suit_sort = 1\<rparr> \<and>
   Card 14 ''Clubs'' = Inr \<lparr>rank = 14, suit = ''Clubs'', suit_sort = 4\<rparr> \<and>
   card_gt \<lparr>rank = 14, suit = ''Spades'', suit_sort = 1\<rparr>
           \<lparr>rank = 14, suit = ''Clubs'', suit_sort = 4\<rparr> = Inr False"
  by (simp add: Card_def card_gt_def suit_values_known)

text \<open>
  C3, as the code has it: the constructor accepts every rank, and succeeds exactly on
  the four suit names of the dictionary; on any other suit it raises \<open>KeyError\<close>.
\<close>

theorem Card_succeeds_on_known_suits_only:
  "(s \<in> set suits \<longrightarrow>
      (\<exists>w. suit_values s = Some w \<and> Card r s = Inr \<lparr>rank = r, suit = s, suit_sort = w\<rparr>)) \<and>
   (s \<notin> set suits \<longrightarrow> Card r s = Inl (KeyError s))"
proof (cases "s \<in> set suits")
  case True
  then obtain w where "suit_values s = Some w"
    using suit_values_dom by blast
  with True show ?thesis by (simp add: Card_def)
next
  case False
  then show ?thesis by (simp add: Card_def suit_values_unknown)
qed

theorem Card_succeeds_on_known_suits_only_witness:
  "''Hearts'' \<in> set suits \<and>
   Card 99 ''Hearts'' = Inr \<lparr>rank = 99, suit = ''Hearts'', suit_sort = 3\<rparr> \<and>
   ''Stars'' \<notin> set suits \<and> Card (- 1) ''Stars'' = Inl (KeyError ''Stars'')"
  using Card_succeeds_on_known_suits_only [of "''Hearts''" 99]
    Card_succeeds_on_known_suits_only [of "''Stars''" "- 1"]
  by (simp add: suits_def suit_values_known)

text \<open>C3 as stated fails: a suit outside the four names makes the constructor raise.\<close>

theorem Card_unknown_suit_raises: "Card 5 ''Stars'' = Inl (KeyError ''Stars'')"
  by (simp add: Card_def suit_values_def)

text \<open>
  C5: for cards whose suits are keys of the weight table (whatever their ranks), cards
  of one suit compare by rank and cards of different suits by suit weight alone; the
  four of hearts is greater than the five of diamonds.
\<close>

theorem card_gt_by_rank_or_suit_weight:
  "(suit_values (suit c1) = Some w1 \<and> suit_values (suit c2) = Some w2 \<longrightarrow>
      card_gt c1 c2 = Inr (if suit c1 = suit c2 then rank c2 < rank c1 else w2 < w1)) \<and>
   Card 4 ''Hearts'' = Inr \<lparr>rank = 4, suit = ''Hearts'', suit_sort = 3\<rparr> \<and>
   Card 5 ''Diamonds'' = Inr \<lparr>rank = 5, suit = ''Diamonds'', suit_sort = 2\<rparr> \<and>
   card_gt \<lparr>rank = 4, suit = ''Hearts'', suit_sort = 3\<rparr>
           \<lparr>rank = 5, suit = ''Diamonds'', suit_sort = 2\<rparr> = Inr True"
  by (simp add: card_gt_def Card_def suit_values_known)

theorem card_gt_by_rank_or_suit_weight_witness:
  "suit_values ''Diamonds'' = Some 2 \<and> suit_values ''Spades'' = Some 1 \<and>
   card_gt \<lparr>rank = 2, suit = ''Diamonds'', suit_sort = 2\<rparr>
           \<lparr>rank = 14, suit = ''Spades'', suit_sort = 1\<rparr> = Inr True \<and>
   card_gt \<lparr>rank = 9, suit = ''Spades'', suit_sort = 1\<rparr>
           \<lparr>rank = 14, suit = ''Spades'', suit_sort = 1\<rparr> = Inr False"
  using card_gt_by_rank_or_suit_weight
      [of "\<lparr>rank = 2, suit = ''Diamonds'', suit_sort = 2\<rparr>" 2
          "\<lparr>rank = 14, suit = ''Spades'', suit_sort = 1\<rparr>" 1]
    card_gt_by_rank_or_suit_weight
      [of "\<lparr>rank = 9, suit = ''Spades'', suit_sort = 1\<rparr>" 1
          "\<lparr>rank = 14, suit = ''Spades'', suit_sort = 1\<rparr>" 1]
  by (simp add: suit_values_known)

section \<open>Properties of Deck\<close>

subsection \<open>Sorting\<close>

lemma lexkey_le: "lexkey a \<le> lexkey b \<longleftrightarrow> suit_then_rank a b"
  by (auto simp: lexkey_def suit_then_rank_def less_eq_prod_def)

lemma suit_then_rank_weight: "suit_then_rank a b \<Longrightarrow> suit_sort a \<le> suit_sort b"
  by (auto simp: suit_then_rank_def)

text \<open>
  The second pass inserts, by suit weight, a card whose rank is below every rank
  already there: the result stays ordered by suit and then rank.
\<close>

lemma insort_suit_then_rank:
  "sorted_wrt suit_then_rank ws \<Longrightarrow> \<forall>w \<in> set ws. rank z \<le> rank w \<Longrightarrow>
   sorted_wrt suit_then_rank (insort_key suit_sort z ws)"
proof (induction ws)
  case Nil
  then show ?case by simp
next
  case (Cons w ws)
  show ?case
  proof (cases "suit_sort z \<le> suit_sort w")
    case True
    have "suit_then_rank z v" if "v \<in> set (w # ws)" for v
    proof -
      have "suit_sort w \<le> suit_sort v"
        using that Cons.prems(1) by (auto dest: suit_then_rank_weight)
      moreover have "rank z \<le> rank v"
        using that Cons.prems(2) by auto
      ultimately show ?thesis
        using True by (auto simp: suit_then_rank_def)
    qed
    with True Cons.prems(1) show ?thesis by auto
  next
    case False
    then have "suit_then_rank w z"
      by (simp add: suit_then_rank_def)
    with False Cons show ?thesis
      by (auto simp: set_insort_key)
  qed
qed

lemma second_pass_sorted:
  "sorted (map rank zs) \<Longrightarrow> sorted_wrt suit_then_rank (sort_key suit_sort zs)"
proof (induction zs)
  case Nil
  then show ?case by simp
next
  case (Cons z zs)
  then have "\<forall>w \<in> set (sort_key suit_sort zs). rank z \<le> rank w"
    by auto
  with Cons show ?case
    by (simp add: insort_suit_then_rank)
qed

lemma sort_deck_sorted: "sorted_wrt suit_then_rank (sort_deck xs)"
  unfolding sort_deck_def by (rule second_pass_sorted) simp

lemma sort_deck_mset: "mset (sort_deck xs) = mset xs"
  by (simp add: sort_deck_def)

lemma sort_deck_keys_sorted: "sorted (map lexkey (sort_deck xs))"
  by (simp add: sorted_map lexkey_le sort_deck_sorted)

text \<open>Both passes are stable, so cards with the same suit weight and rank keep their order.\<close>

lemma sort_deck_filter:
  "filter (\<lambda>x. lexkey k = lexkey x) (sort_deck xs) = filter (\<lambda>x. lexkey k = lexkey x) xs"
proof -
  have split: "filter (\<lambda>x. lexkey k = lexkey x) ys =
      filter (\<lambda>x. rank x = rank k) (filter (\<lambda>x. suit_sort x = suit_sort k) ys)" for ys
    by (auto simp: lexkey_def intro: filter_cong)
  have "filter (\<lambda>x. rank x = rank k) (filter (\<lambda>x. suit_sort x = suit_sort k) (sort_deck xs))
      = filter (\<lambda>x. rank x = rank k) (filter (\<lambda>x. suit_sort x = suit_sort k) (sort_key rank xs))"
    by (simp only: sort_deck_def sort_key_stable)
  also have "\<dots> =
      filter (\<lambda>x. suit_sort x = suit_sort k) (filter (\<lambda>x. rank x = rank k) (sort_key rank xs))"
    by (auto intro: filter_cong)
  also have "\<dots> = filter (\<lambda>x. suit_sort x = suit_sort k) (filter (\<lambda>x. rank x = rank k) xs)"
    by (simp only: sort_key_stable)
  also have "\<dots> = filter (\<lambda>x. rank x = rank k) (filter (\<lambda>x. suit_sort x = suit_sort k) xs)"
    by (auto intro: filter_cong)
  finally show ?thesis
    by (simp only: split)
qed

text \<open>The two passes amount to one stable sort by the pair (suit weight, rank).\<close>

lemma sort_deck_lexkey: "sort_deck xs = sort_key lexkey xs"
proof (rule sym, rule properties_for_sort_key)
  show "mset (sort_deck xs) = mset xs"
    by (rule sort_deck_mset)
  show "filter (\<lambda>x. lexkey k = lexkey x) (sort_deck xs) = filter (\<lambda>x. lexkey k = lexkey x) xs"
    for k by (rule sort_deck_filter)
  show "sorted (map lexkey (sort_deck xs))"
    by (rule sort_deck_keys_sorted)
qed

lemma sort_deck_fixes_sorted: "sorted_wrt suit_then_rank xs \<Longrightarrow> sort_deck xs = xs"
proof -
  assume "sorted_wrt suit_then_rank xs"
  then have "sorted (map lexkey xs)"
    by (simp add: sorted_map lexkey_le)
  then have "sort_key lexkey xs = xs"
    by (rule sort_key_id_if_sorted)
  then show ?thesis
    by (simp add: sort_deck_lexkey)
qed

text \<open>
  C6: whatever the arrangement of the deck, \<open>sort\<close> rearranges its cards into ascending
  suit weight and, within one suit weight, ascending rank; a deck already in that order
  is left as it is, and sorting twice gives what sorting once gives.
\<close>

theorem sort_deck_ordered_and_idempotent:
  "sorted_wrt suit_then_rank (sort_deck d) \<and>
   mset (sort_deck d) = mset d \<and>
   (sorted_wrt suit_then_rank d \<longrightarrow> sort_deck d = d) \<and>
   sort_deck (sort_deck d) = sort_deck d"
  using sort_deck_sorted [of d] sort_deck_mset [of d] sort_deck_fixes_sorted [of d]
    sort_deck_fixes_sorted [of "sort_deck d"]
  by blast

text \<open>The witness is the example of the docstring of \<open>Deck.sort\<close>.\<close>

theorem sort_deck_ordered_and_idempotent_witness:
  "sorted_wrt suit_then_rank
     [\<lparr>rank = 2, suit = ''Spades'', suit_sort = 1\<rparr>, \<lparr>rank = 13, suit = ''Spades'', suit_sort = 1\<rparr>,
      \<lparr>rank = 5, suit = ''Diamonds'', suit_sort = 2\<rparr>, \<lparr>rank = 3, suit = ''Hearts'', suit_sort = 3\<rparr>,
      \<lparr>rank = 14, suit = ''Clubs'', suit_sort = 4\<rparr>] \<and>
   sort_deck
     [\<lparr>rank = 2, suit = ''Spades'', suit_sort = 1\<rparr>, \<lparr>rank = 13, suit = ''Spades'', suit_sort = 1\<rparr>,
      \<lparr>rank = 5, suit = ''Diamonds'', suit_sort = 2\<rparr>, \<lparr>rank = 3, suit = ''Hearts'', suit_sort = 3\<rparr>,
      \<lparr>rank = 14, suit = ''Clubs'', suit_sort = 4\<rparr>] =
     [\<lparr>rank = 2, suit = ''Spades'', suit_sort = 1\<rparr>, \<lparr>rank = 13, suit = ''Spades'', suit_sort = 1\<rparr>,
      \<lparr>rank = 5, suit = ''Diamonds'', suit_sort = 2\<rparr>, \<lparr>rank = 3, suit = ''Hearts'', suit_sort = 3\<rparr>,
      \<lparr>rank = 14, suit = ''Clubs'', suit_sort = 4\<rparr>]"
  using sort_deck_ordered_and_idempotent
    [of "[\<lparr>rank = 2, suit = ''Spades'', suit_sort = 1\<rparr>, \<lparr>rank = 13, suit = ''Spades'', suit_sort = 1\<rparr>,
      \<lparr>rank = 5, suit = ''Diamonds'', suit_sort = 2\<rparr>, \<lparr>rank = 3, suit = ''Hearts'', suit_sort = 3\<rparr>,
      \<lparr>rank = 14, suit = ''Clubs'', suit_sort = 4\<rparr>]"]
  by (simp add: suit_then_rank_def)

subsection \<open>Construction and dealing\<close>

lemma Deck_standard: "Deck = Inr standard_deck"
  by code_simp

lemma standard_deck_length: "length standard_deck = 52"
  by code_simp

lemma standard_deck_keys_sorted: "sorted (map lexkey standard_deck)"
  by code_simp

lemma standard_deck_keys_distinct: "distinct (map lexkey standard_deck)"
  by code_simp

lemma standard_deck_order:
  "map (\<lambda>c. (suit c, rank c)) standard_deck = List.product suits [2..14]"
  by code_simp

lemma standard_deck_weights:
  "list_all (\<lambda>c. suit_values (suit c) = Some (suit_sort c)) standard_deck"
  by code_simp

lemma standard_deck_pairs_distinct: "distinct (map (\<lambda>c. (rank c, suit c)) standard_deck)"
  by code_simp

lemma standard_deck_pairs_set:
  "set (map (\<lambda>c. (rank c, suit c)) standard_deck) = {2..14} \<times> set suits"
proof -
  have "map (\<lambda>c. (rank c, suit c)) standard_deck =
      map (\<lambda>(s, r). (r, s)) (map (\<lambda>c. (suit c, rank c)) standard_deck)"
    by simp
  then have "set (map (\<lambda>c. (rank c, suit c)) standard_deck) =
      (\<lambda>(s, r). (r, s)) ` set (List.product suits [2..14])"
    by (simp only: standard_deck_order set_map)
  also have "set (List.product suits [2..14]) = set suits \<times> {2..14}"
    by (simp only: set_product set_upto)
  also have "(\<lambda>(s, r). (r, s)) ` (set suits \<times> {2..14}) = {2..14} \<times> set suits"
    by auto
  finally show ?thesis .
qed

lemma deal_Nil: "deal [] = (None, [])"
  by (simp add: deal_def)

lemma deal_Cons: "deal (c # cs) = (Some c, cs)"
  by (simp add: deal_def)

lemma deal_n_empty: "deal_n n [] = (replicate n None, [])"
  by (induction n) (simp_all add: deal_Nil)

lemma deal_n_all: "deal_n (length d + n) d = (map Some d @ replicate n None, [])"
  by (induction d) (simp_all add: deal_Cons deal_n_empty)

text \<open>
  C8: the constructor builds the fifty-two cards of \<open>standard_deck\<close>: one card for each
  pair of a rank from 2 to 14 and one of the four suits, none twice, suit by suit and
  rank by rank, each with the weight of its suit. \<open>deal\<close> on a deck with a front card
  returns that card and leaves the rest, one card fewer; on the empty deck it returns
  \<open>None\<close> and leaves the deck empty, however often it is called. Dealing the fresh deck
  gives its cards in order, and nothing from the fifty-third call on.
\<close>

theorem Deck_fifty_two_cards_dealt_from_front:
  "Deck = Inr standard_deck \<and>
   length standard_deck = 52 \<and>
   distinct (map (\<lambda>c. (rank c, suit c)) standard_deck) \<and>
   set (map (\<lambda>c. (rank c, suit c)) standard_deck) = {2..14} \<times> set suits \<and>
   map (\<lambda>c. (suit c, rank c)) standard_deck = List.product suits [2..14] \<and>
   list_all (\<lambda>c. suit_values (suit c) = Some (suit_sort c)) standard_deck \<and>
   deal (c # cs) = (Some c, cs) \<and>
   length cs + 1 = length (c # cs) \<and>
   deal [] = (None, []) \<and>
   deal_n n [] = (replicate n None, []) \<and>
   deal_n (52 + n) standard_deck = (map Some standard_deck @ replicate n None, [])"
  using deal_n_all [of standard_deck n]
  by (simp add: Deck_standard standard_deck_length standard_deck_pairs_distinct
      standard_deck_pairs_set standard_deck_order standard_deck_weights deal_Nil deal_Cons
      deal_n_empty del: set_map)

section \<open>Properties of Player\<close>

lemma sum_card_values_snoc:
  "sum_card_values cs = Inr t \<Longrightarrow> card_value c = Inr v \<Longrightarrow>
   sum_card_values (cs @ [c]) = Inr (t + v)"
  by (induction cs arbitrary: t) (auto split: sum.splits)

lemma add_card_name: "add_card p c = Inr p' \<Longrightarrow> name p' = name p"
  by (auto simp: add_card_def Let_def split: sum.splits)

text \<open>
  C9: a fresh player has an empty hand whose values sum to its score of 0, and
  \<open>add_card\<close> with a card built by the constructor appends the card, adds its value to
  the score and keeps the score equal to the sum of the values of the hand.
\<close>

theorem score_is_sum_of_card_values:
  "score_inv (Player n) \<and> cards (Player n) = [] \<and> score (Player n) = 0 \<and>
   (score_inv p \<and> card_ok c \<longrightarrow>
      (\<exists>p'. add_card p c = Inr p' \<and> cards p' = cards p @ [c] \<and>
            card_value c = Inr (score p' - score p) \<and> score_inv p'))"
proof -
  have "score_inv (Player n)"
    by (simp add: score_inv_def Player_def score_def)
  moreover have "cards (Player n) = [] \<and> score (Player n) = 0"
    by (simp add: Player_def score_def)
  moreover have "\<exists>p'. add_card p c = Inr p' \<and> cards p' = cards p @ [c] \<and>
      card_value c = Inr (score p' - score p) \<and> score_inv p'"
    if inv: "score_inv p" and ok: "card_ok c"
  proof -
    let ?p' = "p\<lparr>cards := cards p @ [c], player_score := player_score p + rank c * suit_sort c\<rparr>"
    have v: "card_value c = Inr (rank c * suit_sort c)"
      using ok by (rule card_ok_value)
    then have "add_card p c = Inr ?p'"
      by (simp add: add_card_def)
    moreover have "score_inv ?p'"
      using inv v by (simp add: score_inv_def score_def sum_card_values_snoc)
    ultimately show ?thesis
      using v by (simp add: score_def)
  qed
  ultimately show ?thesis by blast
qed

theorem score_is_sum_of_card_values_witness:
  "score_inv \<lparr>name = ''Player 1'', cards = [\<lparr>rank = 2, suit = ''Clubs'', suit_sort = 4\<rparr>],
              player_score = 8\<rparr> \<and>
   card_ok \<lparr>rank = 14, suit = ''Hearts'', suit_sort = 3\<rparr> \<and>
   add_card \<lparr>name = ''Player 1'', cards = [\<lparr>rank = 2, suit = ''Clubs'', suit_sort = 4\<rparr>],
             player_score = 8\<rparr>
      \<lparr>rank = 14, suit = ''Hearts'', suit_sort = 3\<rparr> =
     Inr \<lparr>name = ''Player 1'',
          cards = [\<lparr>rank = 2, suit = ''Clubs'', suit_sort = 4\<rparr>,
                   \<lparr>rank = 14, suit = ''Hearts'', suit_sort = 3\<rparr>],
          player_score = 50\<rparr> \<and>
   score_inv \<lparr>name = ''Player 1'',
          cards = [\<lparr>rank = 2, suit = ''Clubs'', suit_sort = 4\<rparr>,
                   \<lparr>rank = 14, suit = ''Hearts'', suit_sort = 3\<rparr>],
          player_score = 50\<rparr>"
  using score_is_sum_of_card_values
    [of 1 "\<lparr>name = ''Player 1'', cards = [\<lparr>rank = 2, suit = ''Clubs'', suit_sort = 4\<rparr>],
            player_score = 8\<rparr>"
        "\<lparr>rank = 14, suit = ''Hearts'', suit_sort = 3\<rparr>"]
  by (simp add: score_inv_def score_def card_value_def card_ok_def Card_def suit_values_known
      add_card_def)

section \<open>Properties of CardGame\<close>

subsection \<open>Construction\<close>

lemma str_int_1: "str_int 1 = ''1''"
  by code_simp

lemma str_int_2: "str_int 2 = ''2''"
  by code_simp

lemma CardGame_two: "CardGame 2 sd cpp = Inr (new_game sd cpp)"
  by (simp add: CardGame_def GAME_PLAYERS_REQUIRED_def Player_def str_int_1 str_int_2 upto.simps)

text \<open>
  C7: the constructor raises its error exactly when the number of players is not 2 (the
  error the specification calls \<open>InvalidPlayerCount\<close> is the \<open>ValueError\<close> of the code),
  and with 2 it builds the game with the fresh players "Player 1" and "Player 2".
\<close>

theorem CardGame_requires_two_players:
  "(isl (CardGame n sd cpp) \<longleftrightarrow> n \<noteq> 2) \<and>
   (n \<noteq> 2 \<longrightarrow> CardGame n sd cpp = Inl (ValueError ''Incorrect player count specified.'')) \<and>
   CardGame 2 sd cpp =
     Inr \<lparr>players = [\<lparr>name = ''Player 1'', cards = [], player_score = 0\<rparr>,
                     \<lparr>name = ''Player 2'', cards = [], player_score = 0\<rparr>],
          num_players = 2, sort_deck_flag = sd, cards_per_player = cpp\<rparr>"
  using CardGame_two [of sd cpp]
  by (cases "n = 2") (simp_all add: CardGame_def GAME_PLAYERS_REQUIRED_def)

theorem CardGame_requires_two_players_witness:
  "(3::int) \<noteq> 2 \<and> (0::int) \<noteq> 2 \<and> (1::int) \<noteq> 2 \<and>
   CardGame 3 False 3 = Inl (ValueError ''Incorrect player count specified.'') \<and>
   CardGame 0 False 3 = Inl (ValueError ''Incorrect player count specified.'') \<and>
   CardGame 1 False 3 = Inl (ValueError ''Incorrect player count specified.'')"
  using CardGame_requires_two_players [of 3 False 3] CardGame_requires_two_players [of 0 False 3]
    CardGame_requires_two_players [of 1 False 3]
  by simp

subsection \<open>Playing with a sorted deck\<close>

text \<open>
  However the fifty-two cards were shuffled, sorting puts them back into the order of
  construction: the pairs of suit weight and rank are all different, so there is one
  sorted arrangement only.
\<close>

lemma sort_shuffled_standard_deck:
  assumes "mset ys = mset standard_deck"
  shows "sort_deck ys = standard_deck"
proof -
  let ?zs = "sort_deck ys"
  have m: "mset ?zs = mset standard_deck"
    using assms by (simp add: sort_deck_mset)
  then have mk: "mset (map lexkey ?zs) = mset (map lexkey standard_deck)"
    by simp
  have "distinct (map lexkey ?zs)"
    using mk standard_deck_keys_distinct by (metis mset_eq_imp_distinct_iff)
  moreover have "set (map lexkey ?zs) = set (map lexkey standard_deck)"
    using mk by (rule mset_eq_setD)
  ultimately have "map lexkey ?zs = map lexkey standard_deck"
    using sort_deck_keys_sorted [of ys] standard_deck_keys_sorted standard_deck_keys_distinct
    by (intro sorted_distinct_set_unique)
  moreover have "inj_on lexkey (set ?zs \<union> set standard_deck)"
  proof -
    have "set ?zs = set standard_deck"
      using m by (rule mset_eq_setD)
    moreover have "inj_on lexkey (set standard_deck)"
      using standard_deck_keys_distinct by (simp add: distinct_map)
    ultimately show ?thesis by simp
  qed
  ultimately show ?thesis
    by (rule map_inj_on)
qed

lemma deal_six_sorted:
  "deal_loop (new_game True 3) standard_deck 0 6 =
     Inr (dealt_game True 3 [spade 2, spade 4, spade 6] 12 [spade 3, spade 5, spade 7] 15)"
  by code_simp

text \<open>
  C4: the game built with two players, the sort flag and three cards per player, played
  with any outcome of the shuffle, leaves Player 1 with the spades 2, 4, 6 and the score
  12 and Player 2 with the spades 3, 5, 7 and the score 15, and \<open>show_winner\<close> then
  returns "Player 2".
\<close>

theorem sorted_game_won_by_player_2:
  assumes "is_shuffle shf"
  shows "CardGame 2 True 3 = Inr (new_game True 3) \<and>
    play_card_game shf (new_game True 3) =
      Inr (dealt_game True 3 [spade 2, spade 4, spade 6] 12 [spade 3, spade 5, spade 7] 15) \<and>
    map score (players (dealt_game True 3 [spade 2, spade 4, spade 6] 12
                          [spade 3, spade 5, spade 7] 15)) = [12, 15] \<and>
    map_sum id fst
      (show_winner (dealt_game True 3 [spade 2, spade 4, spade 6] 12
                      [spade 3, spade 5, spade 7] 15)) = Inr ''Player 2''"
proof -
  have "mset (shf standard_deck) = mset standard_deck"
    using assms by (simp add: is_shuffle_def)
  then have "sort_deck (shf standard_deck) = standard_deck"
    by (rule sort_shuffled_standard_deck)
  then show ?thesis
    by (simp add: CardGame_two play_card_game_def Deck_standard shuffle_def deal_six_sorted
        show_winner_def player_gt_def score_def)
qed

theorem sorted_game_won_by_player_2_witness:
  "is_shuffle rev \<and>
   play_card_game rev (new_game True 3) =
     Inr (dealt_game True 3 [spade 2, spade 4, spade 6] 12 [spade 3, spade 5, spade 7] 15) \<and>
   map_sum id fst
     (show_winner (dealt_game True 3 [spade 2, spade 4, spade 6] 12
                     [spade 3, spade 5, spade 7] 15)) = Inr ''Player 2''"
  using sorted_game_won_by_player_2 [of rev]
  by (simp add: is_shuffle_def)

subsection \<open>Dealing keeps the players and their names\<close>

lemma py_index_bound: "py_index xs i = Inr k \<Longrightarrow> k < length xs"
  by (auto simp: py_index_def split: if_splits)

lemma deal_loop_names:
  "deal_loop g d cur n = Inr g' \<Longrightarrow> map name (players g') = map name (players g)"
proof (induction g d cur n rule: deal_loop.induct)
  case (1 g d cur n)
  show ?case
  proof (cases "0 < n")
    case False
    with "1.prems" show ?thesis
      by (simp add: deal_loop.simps [of g d cur n])
  next
    case True
    show ?thesis
    proof (cases d)
      case Nil
      with True "1.prems" show ?thesis
        by (simp add: deal_loop.simps [of g "[]" cur n] deal_Nil)
    next
      case (Cons c rest)
      from True Cons "1.prems" obtain k p nxt
        where k: "py_index (players g) cur = Inr k"
          and p: "add_card (players g ! k) c = Inr p"
          and nxt: "py_mod (cur + 1) (num_players g) = Inr nxt"
          and rec: "deal_loop (g\<lparr>players := (players g)[k := p]\<rparr>) rest nxt (n - 1) = Inr g'"
        by (auto simp: deal_loop.simps [of g "c # rest" cur n] deal_Cons split: sum.splits)
      have "map name (players g') = map name ((players g)[k := p])"
        using "1.IH" [OF True _ _ k p nxt rec] Cons by (simp add: deal_Cons)
      also have "\<dots> = (map name (players g))[k := name (players g ! k)]"
        using add_card_name [OF p] by (simp add: map_update)
      also have "\<dots> = map name (players g)"
        using py_index_bound [OF k] by (simp add: list_update_same_conv)
      finally show ?thesis .
    qed
  qed
qed

lemma play_card_game_names:
  "play_card_game shf g = Inr g' \<Longrightarrow> map name (players g') = map name (players g)"
  by (auto simp: play_card_game_def Deck_standard Let_def dest: deal_loop_names)

subsection \<open>Choosing the winner\<close>

lemma show_winner_two:
  "players g = [p1, p2] \<Longrightarrow>
   show_winner g = Inr (if player_score p1 < player_score p2 then name p2 else name p1, g\<lparr>players := []\<rparr>)"
  by (simp add: show_winner_def player_gt_def)

text \<open>
  C10: in a game built for two players and played, the players are still "Player 1" and
  "Player 2"; when their scores are equal \<open>show_winner\<close> returns "Player 1", and it
  returns "Player 2" exactly when the score of the second player is strictly greater.
\<close>

theorem tie_keeps_player_1:
  assumes "CardGame 2 sd cpp = Inr g0"
    and "play_card_game shf g0 = Inr g"
    and "players g = [p1, p2]"
  shows "name p1 = ''Player 1'' \<and> name p2 = ''Player 2'' \<and>
    (score p1 = score p2 \<longrightarrow> show_winner g = Inr (''Player 1'', g\<lparr>players := []\<rparr>)) \<and>
    (show_winner g = Inr (''Player 2'', g\<lparr>players := []\<rparr>) \<longleftrightarrow> score p1 < score p2)"
proof -
  have "g0 = new_game sd cpp"
    using assms(1) by (simp add: CardGame_two)
  then have "map name (players g) = [''Player 1'', ''Player 2'']"
    using play_card_game_names [OF assms(2)] by simp
  with assms(3) have "name p1 = ''Player 1''" "name p2 = ''Player 2''"
    by simp_all
  then show ?thesis
    using show_winner_two [OF assms(3)] by (simp add: score_def)
qed

text \<open>With the sorted deck and nine cards each, both players reach the score 72.\<close>

lemma tie_play:
  "play_card_game rev (new_game True 9) =
     Inr (dealt_game True 9
       [spade 2, spade 4, spade 6, spade 8, spade 10, spade 12, spade 14, diamond 3, diamond 5] 72
       [spade 3, spade 5, spade 7, spade 9, spade 11, spade 13, diamond 2, diamond 4, diamond 6] 72)"
  by code_simp

theorem tie_keeps_player_1_witness:
  "CardGame 2 True 9 = Inr (new_game True 9) \<and>
   play_card_game rev (new_game True 9) =
     Inr (dealt_game True 9
       [spade 2, spade 4, spade 6, spade 8, spade 10, spade 12, spade 14, diamond 3, diamond 5] 72
       [spade 3, spade 5, spade 7, spade 9, spade 11, spade 13, diamond 2, diamond 4, diamond 6] 72) \<and>
   show_winner (dealt_game True 9
       [spade 2, spade 4, spade 6, spade 8, spade 10, spade 12, spade 14, diamond 3, diamond 5] 72
       [spade 3, spade 5, spade 7, spade 9, spade 11, spade 13, diamond 2, diamond 4, diamond 6] 72) =
     Inr (''Player 1'', \<lparr>players = [], num_players = 2, sort_deck_flag = True, cards_per_player = 9\<rparr>)"
  using tie_keeps_player_1 [OF CardGame_two tie_play, of
      "\<lparr>name = ''Player 1'', cards = [spade 2, spade 4, spade 6, spade 8, spade 10, spade 12, spade 14, diamond 3, diamond 5], player_score = 72\<rparr>"
      "\<lparr>name = ''Player 2'', cards = [spade 3, spade 5, spade 7, spade 9, spade 11, spade 13, diamond 2, diamond 4, diamond 6], player_score = 72\<rparr>"]
  by (simp add: CardGame_two tie_play score_def)

text \<open>
  C1, as the code has it: on a game that holds its two players, \<open>show_winner\<close> returns
  the name of the player whose score is strictly higher, and it pops both players off
  the list of the game, which is empty afterwards; the other fields of the game are
  unchanged.
\<close>

theorem show_winner_empties_players:
  assumes "players g = [p1, p2]"
  shows "\<exists>w. show_winner g = Inr (w, g\<lparr>players := []\<rparr>) \<and>
    (score p1 < score p2 \<longrightarrow> w = name p2) \<and>
    (score p2 < score p1 \<longrightarrow> w = name p1)"
  using show_winner_two [OF assms] by (simp add: score_def)

theorem show_winner_empties_players_witness:
  "players (dealt_game True 3 [spade 2, spade 4, spade 6] 12 [spade 3, spade 5, spade 7] 15) =
     [\<lparr>name = ''Player 1'', cards = [spade 2, spade 4, spade 6], player_score = 12\<rparr>,
      \<lparr>name = ''Player 2'', cards = [spade 3, spade 5, spade 7], player_score = 15\<rparr>] \<and>
   show_winner (dealt_game True 3 [spade 2, spade 4, spade 6] 12 [spade 3, spade 5, spade 7] 15) =
     Inr (''Player 2'', \<lparr>players = [], num_players = 2, sort_deck_flag = True, cards_per_player = 3\<rparr>)"
  using show_winner_empties_players
    [of "dealt_game True 3 [spade 2, spade 4, spade 6] 12 [spade 3, spade 5, spade 7] 15"
        "\<lparr>name = ''Player 1'', cards = [spade 2, spade 4, spade 6], player_score = 12\<rparr>"
        "\<lparr>name = ''Player 2'', cards = [spade 3, spade 5, spade 7], player_score = 15\<rparr>"]
  by (auto simp: score_def)

text \<open>
  C1 as stated fails: after \<open>show_winner\<close> on the game dealt from the sorted deck, the
  list of players is empty, and it was not before.
\<close>

theorem show_winner_changes_players:
  "map_sum id (\<lambda>r. players (snd r))
     (show_winner (dealt_game True 3 [spade 2, spade 4, spade 6] 12 [spade 3, spade 5, spade 7] 15)) =
     Inr [] \<and>
   players (dealt_game True 3 [spade 2, spade 4, spade 6] 12 [spade 3, spade 5, spade 7] 15) \<noteq> []"
  by (simp add: show_winner_def player_gt_def)

end
